theory Spec2Isabelle
  imports Main "HOL-Library.Word" "HOL-Library.Signed_Division" "HOL-Library.Multiset"
begin

unbundle bit_operations_syntax

section \<open>Shared data: machine integers, bytes, errors\<close>

type_synonym byte = "8 word"
type_synonym int64 = "64 word"

text \<open>
  Go's \<^verbatim>\<open>error\<close> interface. A base error is identified by its message
  (\<^verbatim>\<open>errors.errorString\<close>); \<^verbatim>\<open>fmt.Errorf\<close> with the verb \<^verbatim>\<open>%w\<close> builds a
  \<^verbatim>\<open>fmt.wrapError\<close> holding the formatted message and the wrapped error.
  A function returning \<^verbatim>\<open>(T, error)\<close> is modelled with the result type \<open>error + T\<close>:
  \<open>Inl e\<close> is the Go return of zero values together with the non-nil error \<open>e\<close>.
\<close>

datatype error = errorString string | wrapError string error

fun Error :: "error \<Rightarrow> string" where
  "Error (errorString s) = s"
| "Error (wrapError msg e) = msg"

fun Unwrap :: "error \<Rightarrow> error option" where
  "Unwrap (errorString s) = None"
| "Unwrap (wrapError msg e) = Some e"

text \<open>\<^verbatim>\<open>fmt.Errorf(prefix + "%w", err)\<close>: the message is the prefix followed by
  \<^verbatim>\<open>err.Error()\<close>, and \<^verbatim>\<open>Unwrap\<close> gives \<^verbatim>\<open>err\<close> back.\<close>

definition Errorf_w :: "string \<Rightarrow> error \<Rightarrow> error" where
  "Errorf_w prefix err = wrapError (prefix @ Error err) err"

section \<open>ResourceSizer: \<^verbatim>\<open>IPFSContainerResources\<close>\<close>

text \<open>Go's \<^verbatim>\<open>/\<close> on \<^verbatim>\<open>int64\<close>: the quotient is truncated towards zero.\<close>

definition int64_div :: "int64 \<Rightarrow> int64 \<Rightarrow> int64" where
  "int64_div a b = word_of_int (sint a sdiv sint b)"

text \<open>\<^verbatim>\<open>units.Tebibyte\<close> is \<^verbatim>\<open>1 << 40\<close>.\<close>

definition Tebibyte :: int64 where
  "Tebibyte = 1099511627776"

text \<open>\<^verbatim>\<open>resource.Scale\<close> is the decimal exponent: \<^verbatim>\<open>Milli = -3\<close>, \<^verbatim>\<open>Giga = 9\<close>.\<close>

type_synonym Scale = int

definition Milli :: Scale where
  "Milli = - 3"

definition Giga :: Scale where
  "Giga = 9"

datatype Format = DecimalExponent | BinarySI | DecimalSI

text \<open>\<^verbatim>\<open>resource.Quantity\<close> as \<^verbatim>\<open>NewScaledQuantity\<close> fills it: the \<^verbatim>\<open>int64Amount\<close>
  (an \<^verbatim>\<open>int64\<close> value and a scale) and the format.\<close>

record Quantity =
  amount :: int64
  scale :: Scale
  format :: Format

definition NewScaledQuantity :: "int64 \<Rightarrow> Scale \<Rightarrow> Quantity" where
  "NewScaledQuantity v s = \<lparr>amount = v, scale = s, format = DecimalSI\<rparr>"

type_synonym ResourceName = string

definition ResourceCPU :: ResourceName where
  "ResourceCPU = ''cpu''"

definition ResourceMemory :: ResourceName where
  "ResourceMemory = ''memory''"

type_synonym ResourceList = "ResourceName \<rightharpoonup> Quantity"

record ResourceRequirements =
  Limits :: ResourceList
  Requests :: ResourceList

definition ipfsStorageTB :: "int64 \<Rightarrow> int64" where
  "ipfsStorageTB ipfsStorageBytes = int64_div ipfsStorageBytes Tebibyte"

definition ipfsMilliCoresMin :: "int64 \<Rightarrow> int64" where
  "ipfsMilliCoresMin ipfsStorageBytes = 250 + (500 * ipfsStorageTB ipfsStorageBytes)"

definition ipfsRAMGBMin :: "int64 \<Rightarrow> int64" where
  "ipfsRAMGBMin ipfsStorageBytes =
     (if ipfsStorageTB ipfsStorageBytes <s 2 then 1 else ipfsStorageTB ipfsStorageBytes)"

definition IPFSContainerResources :: "int64 \<Rightarrow> ResourceRequirements" where
  "IPFSContainerResources ipfsStorageBytes =
     (let ipfsRAMMinQuantity = NewScaledQuantity (ipfsRAMGBMin ipfsStorageBytes) Giga;
          ipfsRAMMaxQuantity = NewScaledQuantity (2 * ipfsRAMGBMin ipfsStorageBytes) Giga;
          ipfsCoresMinQuantity = NewScaledQuantity (ipfsMilliCoresMin ipfsStorageBytes) Milli;
          ipfsCoresMaxQuantity = NewScaledQuantity (2 * ipfsMilliCoresMin ipfsStorageBytes) Milli
      in \<lparr>Limits = [ResourceMemory \<mapsto> ipfsRAMMaxQuantity, ResourceCPU \<mapsto> ipfsCoresMaxQuantity],
          Requests = [ResourceMemory \<mapsto> ipfsRAMMinQuantity, ResourceCPU \<mapsto> ipfsCoresMinQuantity]\<rparr>)"

text \<open>The number a quantity denotes, in thousandths of a unit (millicores for CPU,
  thousandths of a byte for memory): \<open>amount * 10 ^ (scale + 3)\<close>, read as a signed
  \<^verbatim>\<open>int64\<close> amount. It is defined for the scales used here, which are at least \<open>Milli\<close>.\<close>

definition milliUnits :: "Quantity \<Rightarrow> int" where
  "milliUnits q = sint (amount q) * 10 ^ nat (scale q + 3)"

text \<open>Componentwise comparison of two entries of a resource list: both are present and
  the first denotes at most the second.\<close>

fun component_le :: "Quantity option \<Rightarrow> Quantity option \<Rightarrow> bool" where
  "component_le (Some q1) (Some q2) = (scale q1 = scale q2 \<and> milliUnits q1 \<le> milliUnits q2)"
| "component_le _ _ = False"

text \<open>What an entry of a resource list holds: the amount read as a signed integer,
  and the scale.\<close>

definition reading :: "Quantity option \<Rightarrow> (int \<times> Scale) option" where
  "reading = map_option (\<lambda>q. (sint (amount q), scale q))"

section \<open>ObjectSynchronizer: \<^verbatim>\<open>CreateOrPatchTrackedObjects\<close>\<close>

text \<open>
  The cluster, together with the contents of the tracked objects (which the apply call
  may rewrite), is a world \<open>'w\<close> threaded through the calls. A tracked object \<open>'o\<close> is the
  identity of a non-nil \<^verbatim>\<open>client.Object\<close>, the key of the Go map. A
  \<^verbatim>\<open>controllerutil.MutateFn\<close> is a closure \<^verbatim>\<open>func() error\<close>; it may change the world.
\<close>

type_synonym 'w MutateFn = "'w \<Rightarrow> error option \<times> 'w"

text \<open>\<^verbatim>\<open>controllerutil.OperationResult\<close> is a string type.\<close>

type_synonym OperationResult = string

text \<open>\<^verbatim>\<open>ErrFunc\<close>: the mutation that returns the given error when called.\<close>

definition ErrFunc :: "error option \<Rightarrow> 'w MutateFn" where
  "ErrFunc err = (\<lambda>w. (err, w))"

text \<open>What the function uses from outside the repository: \<^verbatim>\<open>controllerutil.CreateOrPatch\<close>
  (with its context and client), and the two accessors of an object,
  \<^verbatim>\<open>obj.GetObjectKind().GroupVersionKind().Kind\<close> and \<^verbatim>\<open>obj.GetName()\<close>.\<close>

record ('w, 'o) Backend =
  CreateOrPatch :: "'w \<Rightarrow> 'o \<Rightarrow> 'w MutateFn \<Rightarrow> (OperationResult \<times> error option) \<times> 'w"
  GetKind :: "'w \<Rightarrow> 'o \<Rightarrow> string"
  GetName :: "'w \<Rightarrow> 'o \<Rightarrow> string"

text \<open>The two kinds of log record: \<^verbatim>\<open>log.Error(err, msg, keysAndValues...)\<close> and
  \<^verbatim>\<open>log.Info(msg, keysAndValues...)\<close>.\<close>

datatype LogRecord =
  LogError error string "(string \<times> string) list"
| LogInfo string "(string \<times> string) list"

text \<open>One invocation of \<^verbatim>\<open>CreateOrPatch\<close>, as observed at the backend: the arguments and
  what came back.\<close>

record ('w, 'o) Call =
  callObj :: 'o
  callMut :: "'w MutateFn"
  callResult :: OperationResult
  callErr :: "error option"

record ('w, 'o) SyncState =
  world :: 'w
  calls :: "('w, 'o) Call list"
  logged :: "LogRecord list"
  requeue :: bool

text \<open>The body of the \<^verbatim>\<open>for obj, mut := range trackedObjects\<close> loop.\<close>

definition loopBody ::
  "('w, 'o) Backend \<Rightarrow> 'o \<times> 'w MutateFn \<Rightarrow> ('w, 'o) SyncState \<Rightarrow> ('w, 'o) SyncState" where
  "loopBody backend entry st =
     (case entry of (obj, mut) \<Rightarrow>
        let kind = GetKind backend (world st) obj;
            name = GetName backend (world st) obj;
            ((result, err), w') = CreateOrPatch backend (world st) obj mut;
            st' = st\<lparr>world := w',
                     calls := calls st @
                       [\<lparr>callObj = obj, callMut = mut, callResult = result, callErr = err\<rparr>]\<rparr>
        in (case err of
              Some e \<Rightarrow>
                st'\<lparr>logged := logged st' @
                      [LogError e ''error creating object''
                         [(''objname'', name), (''objKind'', kind), (''result'', result)]],
                    requeue := True\<rparr>
            | None \<Rightarrow>
                st'\<lparr>logged := logged st' @
                      [LogInfo ''object changed''
                         [(''objName'', name), (''objKind'', kind), (''result'', result)]]\<rparr>))"

fun rangeLoop ::
  "('w, 'o) Backend \<Rightarrow> ('o \<times> 'w MutateFn) list \<Rightarrow> ('w, 'o) SyncState \<Rightarrow> ('w, 'o) SyncState" where
  "rangeLoop backend [] st = st"
| "rangeLoop backend (entry # rest) st = rangeLoop backend rest (loopBody backend entry st)"

text \<open>
  A Go map has no iteration order of its own: \<^verbatim>\<open>range\<close> yields every entry once, in an
  order the runtime picks afresh for each loop. The order is therefore an input of the
  model: \<open>entries\<close> is the sequence in which this run's \<^verbatim>\<open>range\<close> yields the map. The value
  the Go function returns is the \<open>requeue\<close> field of the final state; the other fields are
  its effects.
\<close>

definition CreateOrPatchTrackedObjects ::
  "('w, 'o) Backend \<Rightarrow> ('o \<times> 'w MutateFn) list \<Rightarrow> 'w \<Rightarrow> ('w, 'o) SyncState" where
  "CreateOrPatchTrackedObjects backend entries w =
     rangeLoop backend entries \<lparr>world = w, calls = [], logged = [], requeue = False\<rparr>"

text \<open>The sequences a \<^verbatim>\<open>range\<close> over the map \<open>trackedObjects\<close> can yield: each key once,
  with its value.\<close>

definition rangeOrder :: "('o \<rightharpoonup> 'm) \<Rightarrow> ('o \<times> 'm) list \<Rightarrow> bool" where
  "rangeOrder trackedObjects entries =
     (distinct (map fst entries) \<and> map_of entries = trackedObjects)"

definition entryOf :: "('w, 'o) Call \<Rightarrow> 'o \<times> 'w MutateFn" where
  "entryOf c = (callObj c, callMut c)"

text \<open>The world in which the call after the given entries is made: the backend's own
  effects of those calls, whatever they returned.\<close>

fun worldAfter :: "('w, 'o) Backend \<Rightarrow> ('o \<times> 'w MutateFn) list \<Rightarrow> 'w \<Rightarrow> 'w" where
  "worldAfter backend [] w = w"
| "worldAfter backend (entry # rest) w =
     worldAfter backend rest (snd (CreateOrPatch backend w (fst entry) (snd entry)))"

text \<open>The backend's answer to one entry in a given world.\<close>

definition callOf :: "('w, 'o) Backend \<Rightarrow> 'w \<Rightarrow> 'o \<times> 'w MutateFn \<Rightarrow> ('w, 'o) Call" where
  "callOf backend w entry =
     \<lparr>callObj = fst entry, callMut = snd entry,
      callResult = fst (fst (CreateOrPatch backend w (fst entry) (snd entry))),
      callErr = snd (fst (CreateOrPatch backend w (fst entry) (snd entry)))\<rparr>"

text \<open>The calls made when the entries are applied one after the other, each in the world
  its predecessors left.\<close>

fun applyAll :: "('w, 'o) Backend \<Rightarrow> ('o \<times> 'w MutateFn) list \<Rightarrow> 'w \<Rightarrow> ('w, 'o) Call list" where
  "applyAll backend [] w = []"
| "applyAll backend (entry # rest) w =
     callOf backend w entry #
     applyAll backend rest (snd (CreateOrPatch backend w (fst entry) (snd entry)))"

text \<open>
  A small backend to run the model on: the world is the list of objects that exist,
  objects are numbers. As \<^verbatim>\<open>controllerutil.CreateOrPatch\<close> does, it runs the mutation and
  gives its error back, and otherwise creates the object when it is absent.
\<close>

definition listBackend :: "(nat list, nat) Backend" where
  "listBackend =
     \<lparr>CreateOrPatch = (\<lambda>w obj mut.
         case mut w of
           (Some e, w') \<Rightarrow> ((''unchanged'', Some e), w')
         | (None, w') \<Rightarrow>
             if obj \<in> set w' then ((''unchanged'', None), w')
             else ((''created'', None), obj # w')),
      GetKind = (\<lambda>w obj. ''ConfigMap''),
      GetName = (\<lambda>w obj. if obj = 0 then ''a'' else ''b'')\<rparr>"

section \<open>IdentityProvisioner\<close>

subsection \<open>\<^verbatim>\<open>encoding/hex\<close> and \<^verbatim>\<open>encoding/base64\<close>\<close>

definition hextable :: string where
  "hextable = ''0123456789abcdef''"

text \<open>\<^verbatim>\<open>hex.EncodeToString\<close>: two characters for each byte, high nibble first.\<close>

fun hex_EncodeToString :: "byte list \<Rightarrow> string" where
  "hex_EncodeToString [] = []"
| "hex_EncodeToString (v # src) =
     hextable ! unat (drop_bit 4 v) # hextable ! unat (v AND 0x0f) # hex_EncodeToString src"

text \<open>\<^verbatim>\<open>hex.DecodeString\<close>, the inverse, to say what a hexadecimal string encodes.\<close>

definition fromHexChar :: "char \<Rightarrow> byte option" where
  "fromHexChar c =
     (let n = (of_char c :: nat)
      in if 48 \<le> n \<and> n \<le> 57 then Some (of_nat (n - 48))
         else if 97 \<le> n \<and> n \<le> 102 then Some (of_nat (n - 97 + 10))
         else if 65 \<le> n \<and> n \<le> 70 then Some (of_nat (n - 65 + 10))
         else None)"

fun hex_DecodeString :: "string \<Rightarrow> byte list option" where
  "hex_DecodeString [] = Some []"
| "hex_DecodeString [c] = None"
| "hex_DecodeString (a # b # rest) =
     (case (fromHexChar a, fromHexChar b, hex_DecodeString rest) of
        (Some h, Some l, Some bs) \<Rightarrow> Some ((push_bit 4 h OR l) # bs)
      | _ \<Rightarrow> None)"

definition encodeStd :: string where
  "encodeStd = ''ABCDEFGHIJKLMNOPQRSTUVWXYZabcdefghijklmnopqrstuvwxyz0123456789+/''"

definition sextet :: "32 word \<Rightarrow> nat \<Rightarrow> char" where
  "sextet val shift = encodeStd ! unat (drop_bit shift val AND 0x3F)"

text \<open>\<^verbatim>\<open>base64.StdEncoding.EncodeToString\<close>: three bytes give four characters; a rest of
  one or two bytes is padded with \<^verbatim>\<open>=\<close>.\<close>

fun base64_EncodeToString :: "byte list \<Rightarrow> string" where
  "base64_EncodeToString [] = []"
| "base64_EncodeToString [a] =
     (let val = push_bit 16 (ucast a :: 32 word)
      in [sextet val 18, sextet val 12, CHR ''='', CHR ''=''])"
| "base64_EncodeToString [a, b] =
     (let val = push_bit 16 (ucast a :: 32 word) OR push_bit 8 (ucast b)
      in [sextet val 18, sextet val 12, sextet val 6, CHR ''=''])"
| "base64_EncodeToString (a # b # c # src) =
     (let val = push_bit 16 (ucast a :: 32 word) OR push_bit 8 (ucast b) OR ucast c
      in sextet val 18 # sextet val 12 # sextet val 6 # sextet val 0 #
         base64_EncodeToString src)"

subsection \<open>The random source\<close>

text \<open>
  \<^verbatim>\<open>crypto/rand\<close> is process-wide state. It is modelled by a script and a counter of the
  reads made so far: the \<open>n\<close>-th call of \<^verbatim>\<open>rand.Read\<close> either fails with an error or fills
  the whole buffer, position \<open>i\<close> with the \<open>i\<close>-th byte it supplies. The buffer keeps the
  length \<^verbatim>\<open>make\<close> gave it.
\<close>

type_synonym RandSource = "nat \<Rightarrow> error + (nat \<Rightarrow> byte)"

definition rand_Read :: "RandSource \<Rightarrow> nat \<Rightarrow> nat \<Rightarrow> (error + byte list) \<times> nat" where
  "rand_Read src reads len =
     (case src reads of
        Inl err \<Rightarrow> (Inl err, reads + 1)
      | Inr bytes \<Rightarrow> (Inr (map bytes [0..<len]), reads + 1))"

definition randomKey :: "RandSource \<Rightarrow> nat \<Rightarrow> nat \<Rightarrow> (error + byte list) \<times> nat" where
  "randomKey src reads len =
     (case rand_Read src reads len of
        (Inl err, reads') \<Rightarrow> (Inl err, reads')
      | (Inr buf, reads') \<Rightarrow> (Inr buf, reads'))"

definition NewClusterSecret :: "RandSource \<Rightarrow> nat \<Rightarrow> (error + string) \<times> nat" where
  "NewClusterSecret src reads =
     (case randomKey src reads 32 of
        (Inl err, reads') \<Rightarrow> (Inl err, reads')
      | (Inr buf, reads') \<Rightarrow> (Inr (hex_EncodeToString buf), reads'))"

definition swarmPrefix :: string where
  "swarmPrefix = ''/key/swarm/psk/1.0.0''"

definition multiBase :: string where
  "multiBase = ''/base16/''"

definition newline :: char where
  "newline = CHR 0x0A"

text \<open>\<^verbatim>\<open>fmt.Sprintf("%s\n%s\n%s", swarmPrefix, multiBase, key)\<close> is the concatenation of the
  three strings with a newline between them.\<close>

definition NewSwarmKey :: "RandSource \<Rightarrow> nat \<Rightarrow> (error + string) \<times> nat" where
  "NewSwarmKey src reads =
     (case randomKey src reads 32 of
        (Inl err, reads') \<Rightarrow> (Inl err, reads')
      | (Inr buf, reads') \<Rightarrow>
          (let key = hex_EncodeToString buf;
               swarmKey = swarmPrefix @ [newline] @ multiBase @ [newline] @ key
           in (Inr swarmKey, reads')))"

text \<open>The lines of a text: \<^verbatim>\<open>strings.Split(s, "\n")\<close>.\<close>

fun splitLines :: "string \<Rightarrow> string list" where
  "splitLines [] = [[]]"
| "splitLines (c # cs) =
     (if c = newline then [] # splitLines cs
      else (case splitLines cs of [] \<Rightarrow> [[c]] | l # ls \<Rightarrow> (c # l) # ls))"

subsection \<open>\<^verbatim>\<open>NewKey\<close> and \<^verbatim>\<open>GenerateIdentity\<close>\<close>

datatype KeyType = RSA | Ed25519 | Secp256k1 | ECDSA

text \<open>The three libp2p operations used, each with the outcome it has in this call:
  \<^verbatim>\<open>ci.GenerateKeyPair\<close>, \<^verbatim>\<open>peer.IDFromPublicKey\<close> and \<^verbatim>\<open>ci.MarshalPrivateKey\<close>.
  A \<^verbatim>\<open>peer.ID\<close> is a string.\<close>

record ('priv, 'pub) Libp2p =
  GenerateKeyPair :: "KeyType \<Rightarrow> int \<Rightarrow> error + ('priv \<times> 'pub)"
  IDFromPublicKey :: "'pub \<Rightarrow> error + string"
  MarshalPrivateKey :: "'priv \<Rightarrow> error + byte list"

definition edDSAKeyLen :: int where
  "edDSAKeyLen = 4096"

definition NewKey :: "('priv, 'pub) Libp2p \<Rightarrow> error + ('priv \<times> string)" where
  "NewKey lib =
     (case GenerateKeyPair lib Ed25519 edDSAKeyLen of
        Inl err \<Rightarrow> Inl err
      | Inr (priv, pub) \<Rightarrow>
          (case IDFromPublicKey lib pub of
             Inl err \<Rightarrow> Inl err
           | Inr peerid \<Rightarrow> Inr (priv, peerid)))"

definition GenerateIdentity :: "('priv, 'pub) Libp2p \<Rightarrow> error + (string \<times> string)" where
  "GenerateIdentity lib =
     (case NewKey lib of
        Inl err \<Rightarrow> Inl (Errorf_w ''cannot generate new key: '' err)
      | Inr (privateKey, peerid) \<Rightarrow>
          (case MarshalPrivateKey lib privateKey of
             Inl err \<Rightarrow> Inl (Errorf_w ''cannot get bytes from private key: '' err)
           | Inr privBytes \<Rightarrow> Inr (peerid, base64_EncodeToString privBytes)))"

text \<open>\<^verbatim>\<open>strings.HasPrefix\<close> and \<^verbatim>\<open>strings.Contains\<close>, to say what context a message
  carries.\<close>

fun hasPrefix :: "string \<Rightarrow> string \<Rightarrow> bool" where
  "hasPrefix s [] = True"
| "hasPrefix [] (p # ps) = False"
| "hasPrefix (c # cs) (p # ps) = (c = p \<and> hasPrefix cs ps)"

fun contains :: "string \<Rightarrow> string \<Rightarrow> bool" where
  "contains [] sub = hasPrefix [] sub"
| "contains (c # cs) sub = (hasPrefix (c # cs) sub \<or> contains cs sub)"

section \<open>Properties of the ResourceSizer\<close>

subsection \<open>No \<^verbatim>\<open>int64\<close> operation of the sizing policy wraps around\<close>

lemma sint_Tebibyte: "sint Tebibyte = 2 ^ 40"
  by (simp add: Tebibyte_def)

lemma sdiv_nonneg: "0 \<le> k \<Longrightarrow> 0 < l \<Longrightarrow> (k::int) sdiv l = k div l"
  by (simp add: signed_divide_int_def sgn_if)

lemma sdiv_neg: "k < 0 \<Longrightarrow> 0 < l \<Longrightarrow> (k::int) sdiv l = - ((- k) div l)"
  by (simp add: signed_divide_int_def sgn_if)

lemma sint_bounds64: "- (2 ^ 63) \<le> sint (w :: int64) \<and> sint w < 2 ^ 63"
  using sint_ge [of w] sint_lt [of w] by simp

lemma sdiv_tebi_bounds:
  assumes "- (2 ^ 63) \<le> (k::int)" "k < 2 ^ 63"
  shows "- (2 ^ 23) \<le> k sdiv 2 ^ 40 \<and> k sdiv 2 ^ 40 < 2 ^ 23"
proof (cases "0 \<le> k")
  case True
  then have "k sdiv 2 ^ 40 = k div 2 ^ 40" by (simp add: sdiv_nonneg)
  moreover have "0 \<le> k div 2 ^ 40" using True by simp
  moreover have "k div 2 ^ 40 < 2 ^ 23" using assms(2) by simp
  ultimately show ?thesis by simp
next
  case False
  then have "k sdiv 2 ^ 40 = - ((- k) div 2 ^ 40)" by (simp add: sdiv_neg)
  moreover have "0 \<le> (- k) div 2 ^ 40" using False by simp
  moreover have "(- k) div 2 ^ 40 \<le> 2 ^ 23" using assms(1) by simp
  ultimately show ?thesis by simp
qed

lemma sint_word_of_int_small:
  "- (2 ^ 63) \<le> k \<Longrightarrow> k < 2 ^ 63 \<Longrightarrow> sint (word_of_int k :: int64) = k"
  by (simp add: sint_sbintrunc' signed_take_bit_int_eq_self)

lemma sint_ipfsStorageTB: "sint (ipfsStorageTB s) = sint s sdiv 2 ^ 40"
proof -
  have "- (2 ^ 23) \<le> sint s sdiv 2 ^ 40 \<and> sint s sdiv 2 ^ 40 < 2 ^ 23"
    using sdiv_tebi_bounds sint_bounds64 by blast
  then have "sint (word_of_int (sint s sdiv 2 ^ 40) :: int64) = sint s sdiv 2 ^ 40"
    by (intro sint_word_of_int_small) simp_all
  then show ?thesis
    by (simp add: ipfsStorageTB_def int64_div_def sint_Tebibyte)
qed

lemma ipfsStorageTB_bounds:
  "- (2 ^ 23) \<le> sint (ipfsStorageTB s) \<and> sint (ipfsStorageTB s) < 2 ^ 23"
  using sdiv_tebi_bounds sint_bounds64 by (simp add: sint_ipfsStorageTB)

lemma sint_ipfsStorageTB_nonneg:
  "0 \<le> sint s \<Longrightarrow> sint (ipfsStorageTB s) = sint s div 2 ^ 40"
  by (simp add: sint_ipfsStorageTB sdiv_nonneg)

lemma sint_ipfsMilliCoresMin:
  "sint (ipfsMilliCoresMin s) = 250 + 500 * sint (ipfsStorageTB s)"
  using ipfsStorageTB_bounds [of s]
  by (simp add: ipfsMilliCoresMin_def sint_word_ariths signed_take_bit_int_eq_self)

lemma sint_double_ipfsMilliCoresMin:
  "sint (2 * ipfsMilliCoresMin s) = 2 * sint (ipfsMilliCoresMin s)"
  using ipfsStorageTB_bounds [of s]
  by (simp add: sint_word_ariths signed_take_bit_int_eq_self sint_ipfsMilliCoresMin)

lemma sint_ipfsRAMGBMin:
  "sint (ipfsRAMGBMin s) = (if sint (ipfsStorageTB s) < 2 then 1 else sint (ipfsStorageTB s))"
  by (simp add: ipfsRAMGBMin_def word_sless_alt)

lemma sint_double_ipfsRAMGBMin:
  "sint (2 * ipfsRAMGBMin s) = 2 * sint (ipfsRAMGBMin s)"
  using ipfsStorageTB_bounds [of s]
  by (simp add: sint_word_ariths signed_take_bit_int_eq_self sint_ipfsRAMGBMin)

subsection \<open>The four entries of the profile\<close>

lemma names_distinct: "ResourceMemory \<noteq> ResourceCPU"
  by (simp add: ResourceMemory_def ResourceCPU_def)

lemma reading_cpu_request:
  "reading (Requests (IPFSContainerResources s) ResourceCPU)
     = Some (250 + 500 * sint (ipfsStorageTB s), Milli)"
  by (simp add: IPFSContainerResources_def reading_def NewScaledQuantity_def
      sint_ipfsMilliCoresMin)

lemma reading_cpu_limit:
  "reading (Limits (IPFSContainerResources s) ResourceCPU)
     = Some (2 * (250 + 500 * sint (ipfsStorageTB s)), Milli)"
  by (simp add: IPFSContainerResources_def reading_def NewScaledQuantity_def
      sint_double_ipfsMilliCoresMin sint_ipfsMilliCoresMin)

lemma reading_memory_request:
  "reading (Requests (IPFSContainerResources s) ResourceMemory)
     = Some (if sint (ipfsStorageTB s) < 2 then 1 else sint (ipfsStorageTB s), Giga)"
  using names_distinct
  by (simp add: IPFSContainerResources_def reading_def NewScaledQuantity_def
      sint_ipfsRAMGBMin)

lemma reading_memory_limit:
  "reading (Limits (IPFSContainerResources s) ResourceMemory)
     = Some (2 * (if sint (ipfsStorageTB s) < 2 then 1 else sint (ipfsStorageTB s)), Giga)"
  using names_distinct
  by (simp add: IPFSContainerResources_def reading_def NewScaledQuantity_def
      sint_double_ipfsRAMGBMin sint_ipfsRAMGBMin)

text \<open>
  Claim C2. For every non-negative \<open>storageBytes\<close>, the storage in binary terabytes is
  \<open>storageBytes div 2 ^ 40\<close> (Go's truncating division, which is the floor there); the CPU
  request is \<open>250 + 500 * storageTB\<close> millicores and the CPU limit is exactly twice the
  CPU request; the memory limit is exactly twice the memory request, both in decimal
  gigabytes. No \<^verbatim>\<open>int64\<close> operation wraps around on the way.
\<close>

theorem IPFSContainerResources_cpu_policy:
  assumes "0 \<le> sint storageBytes"
  shows "sint (ipfsStorageTB storageBytes) = sint storageBytes div 2 ^ 40
    \<and> reading (Requests (IPFSContainerResources storageBytes) ResourceCPU)
        = Some (250 + 500 * (sint storageBytes div 2 ^ 40), Milli)
    \<and> reading (Limits (IPFSContainerResources storageBytes) ResourceCPU)
        = Some (2 * (250 + 500 * (sint storageBytes div 2 ^ 40)), Milli)
    \<and> (\<exists>ramGB. reading (Requests (IPFSContainerResources storageBytes) ResourceMemory)
                  = Some (ramGB, Giga)
         \<and> reading (Limits (IPFSContainerResources storageBytes) ResourceMemory)
                  = Some (2 * ramGB, Giga))"
proof -
  have tb: "sint (ipfsStorageTB storageBytes) = sint storageBytes div 2 ^ 40"
    using assms by (rule sint_ipfsStorageTB_nonneg)
  have "reading (Requests (IPFSContainerResources storageBytes) ResourceCPU)
        = Some (250 + 500 * (sint storageBytes div 2 ^ 40), Milli)"
    using reading_cpu_request [of storageBytes] by (simp only: tb)
  moreover have "reading (Limits (IPFSContainerResources storageBytes) ResourceCPU)
        = Some (2 * (250 + 500 * (sint storageBytes div 2 ^ 40)), Milli)"
    using reading_cpu_limit [of storageBytes] by (simp only: tb)
  moreover have "\<exists>ramGB. reading (Requests (IPFSContainerResources storageBytes) ResourceMemory)
                  = Some (ramGB, Giga)
         \<and> reading (Limits (IPFSContainerResources storageBytes) ResourceMemory)
                  = Some (2 * ramGB, Giga)"
    using reading_memory_request [of storageBytes] reading_memory_limit [of storageBytes]
    by blast
  ultimately show ?thesis using tb by blast
qed

theorem IPFSContainerResources_cpu_policy_witness:
  "0 \<le> sint (3298534883333 :: int64)
    \<and> sint (ipfsStorageTB 3298534883333) = 3
    \<and> reading (Requests (IPFSContainerResources 3298534883333) ResourceCPU) = Some (1750, Milli)
    \<and> reading (Limits (IPFSContainerResources 3298534883333) ResourceCPU) = Some (3500, Milli)"
  using IPFSContainerResources_cpu_policy [of 3298534883333] by simp

text \<open>
  Claim C3. For every non-negative \<open>storageBytes\<close>, the memory request in decimal
  gigabytes is \<open>storageTB\<close>, except that it is \<open>1\<close> (not \<open>2\<close>) when \<open>storageTB < 2\<close>. For one
  tebibyte the memory request is 1 decimal gigabyte and the CPU request 750 millicores.
\<close>

theorem IPFSContainerResources_memory_clamp:
  assumes "0 \<le> sint storageBytes"
  shows "reading (Requests (IPFSContainerResources storageBytes) ResourceMemory)
        = Some (if sint storageBytes div 2 ^ 40 < 2 then 1 else sint storageBytes div 2 ^ 40, Giga)
    \<and> reading (Requests (IPFSContainerResources Tebibyte) ResourceMemory) = Some (1, Giga)
    \<and> reading (Requests (IPFSContainerResources Tebibyte) ResourceCPU) = Some (750, Milli)"
proof -
  have tb: "sint (ipfsStorageTB storageBytes) = sint storageBytes div 2 ^ 40"
    using assms by (rule sint_ipfsStorageTB_nonneg)
  have one: "sint (ipfsStorageTB Tebibyte) = 1"
    by (simp add: sint_ipfsStorageTB sint_Tebibyte sdiv_nonneg)
  have "reading (Requests (IPFSContainerResources storageBytes) ResourceMemory)
        = Some (if sint storageBytes div 2 ^ 40 < 2 then 1 else sint storageBytes div 2 ^ 40, Giga)"
    using reading_memory_request [of storageBytes] by (simp only: tb)
  moreover have "reading (Requests (IPFSContainerResources Tebibyte) ResourceMemory) = Some (1, Giga)"
    using reading_memory_request [of Tebibyte] by (simp add: one)
  moreover have "reading (Requests (IPFSContainerResources Tebibyte) ResourceCPU) = Some (750, Milli)"
    using reading_cpu_request [of Tebibyte] by (simp add: one)
  ultimately show ?thesis by blast
qed

theorem IPFSContainerResources_memory_clamp_witness:
  "0 \<le> sint (17592186044416 :: int64)
    \<and> reading (Requests (IPFSContainerResources 17592186044416) ResourceMemory) = Some (16, Giga)"
  using IPFSContainerResources_memory_clamp [of 17592186044416] by simp

subsection \<open>Monotonicity and the behaviour on all of \<^verbatim>\<open>int64\<close>\<close>

lemma sint_ipfsStorageTB_mono:
  assumes "0 \<le> sint s1" "sint s1 \<le> sint s2"
  shows "sint (ipfsStorageTB s1) \<le> sint (ipfsStorageTB s2)"
proof -
  have "sint s1 div 2 ^ 40 \<le> sint s2 div 2 ^ 40"
    using assms(2) by (rule zdiv_mono1) simp
  then show ?thesis
    using assms by (simp add: sint_ipfsStorageTB_nonneg)
qed

lemma component_le_reading:
  "reading a = Some (x, sc) \<Longrightarrow> reading b = Some (y, sc) \<Longrightarrow> - 3 \<le> sc \<Longrightarrow> x \<le> y
     \<Longrightarrow> component_le a b"
  by (cases a; cases b) (auto simp: reading_def milliUnits_def mult_right_mono)

text \<open>
  Claim C4. For all non-negative storage sizes \<open>s1 < s2\<close>, each of the four components of
  the profile of \<open>s1\<close> (CPU request, CPU limit, memory request, memory limit) is at most
  the corresponding component of the profile of \<open>s2\<close>.
\<close>

theorem IPFSContainerResources_monotone:
  assumes "0 \<le> sint s1" and "sint s1 < sint s2"
  shows "component_le (Requests (IPFSContainerResources s1) ResourceCPU)
                      (Requests (IPFSContainerResources s2) ResourceCPU)
    \<and> component_le (Limits (IPFSContainerResources s1) ResourceCPU)
                   (Limits (IPFSContainerResources s2) ResourceCPU)
    \<and> component_le (Requests (IPFSContainerResources s1) ResourceMemory)
                   (Requests (IPFSContainerResources s2) ResourceMemory)
    \<and> component_le (Limits (IPFSContainerResources s1) ResourceMemory)
                   (Limits (IPFSContainerResources s2) ResourceMemory)"
proof -
  have tb: "sint (ipfsStorageTB s1) \<le> sint (ipfsStorageTB s2)"
    using assms by (intro sint_ipfsStorageTB_mono) simp_all
  have "component_le (Requests (IPFSContainerResources s1) ResourceCPU)
                     (Requests (IPFSContainerResources s2) ResourceCPU)"
    using tb by (intro component_le_reading [OF reading_cpu_request reading_cpu_request])
      (simp_all add: Milli_def)
  moreover have "component_le (Limits (IPFSContainerResources s1) ResourceCPU)
                     (Limits (IPFSContainerResources s2) ResourceCPU)"
    using tb by (intro component_le_reading [OF reading_cpu_limit reading_cpu_limit])
      (simp_all add: Milli_def)
  moreover have "component_le (Requests (IPFSContainerResources s1) ResourceMemory)
                     (Requests (IPFSContainerResources s2) ResourceMemory)"
    using tb by (intro component_le_reading [OF reading_memory_request reading_memory_request])
      (simp_all add: Giga_def)
  moreover have "component_le (Limits (IPFSContainerResources s1) ResourceMemory)
                     (Limits (IPFSContainerResources s2) ResourceMemory)"
    using tb by (intro component_le_reading [OF reading_memory_limit reading_memory_limit])
      (simp_all add: Giga_def)
  ultimately show ?thesis by blast
qed

theorem IPFSContainerResources_monotone_witness:
  "0 \<le> sint (1099511627775 :: int64) \<and> sint (1099511627775 :: int64) < sint (2199023255552 :: int64)
    \<and> component_le (Requests (IPFSContainerResources 1099511627775) ResourceCPU)
                   (Requests (IPFSContainerResources 2199023255552) ResourceCPU)
    \<and> component_le (Limits (IPFSContainerResources 1099511627775) ResourceMemory)
                   (Limits (IPFSContainerResources 2199023255552) ResourceMemory)"
  using IPFSContainerResources_monotone [of 1099511627775 2199023255552] by simp

text \<open>
  Claim C10. The sizing function has no precondition and no failing branch: for every
  \<^verbatim>\<open>int64\<close> input, negative ones included, it yields a profile whose requests and limits
  hold exactly a CPU and a memory entry. Whenever \<open>storageTB < 2\<close>, which covers every
  negative input, the memory request is exactly 1 decimal gigabyte and the memory limit
  exactly 2; the CPU request can then be negative, as it is for minus one tebibyte
  (\<open>- 250\<close> millicores).
\<close>

theorem IPFSContainerResources_total_clamp:
  "dom (Requests (IPFSContainerResources s)) = {ResourceCPU, ResourceMemory}
    \<and> dom (Limits (IPFSContainerResources s)) = {ResourceCPU, ResourceMemory}
    \<and> (sint s < 0 \<longrightarrow> sint (ipfsStorageTB s) < 2)
    \<and> (sint (ipfsStorageTB s) < 2 \<longrightarrow>
         reading (Requests (IPFSContainerResources s) ResourceMemory) = Some (1, Giga)
       \<and> reading (Limits (IPFSContainerResources s) ResourceMemory) = Some (2, Giga))
    \<and> reading (Requests (IPFSContainerResources (- Tebibyte)) ResourceCPU) = Some (- 250, Milli)"
proof -
  have "dom (Requests (IPFSContainerResources s)) = {ResourceCPU, ResourceMemory}"
    by (auto simp: IPFSContainerResources_def)
  moreover have "dom (Limits (IPFSContainerResources s)) = {ResourceCPU, ResourceMemory}"
    by (auto simp: IPFSContainerResources_def)
  moreover have "sint (ipfsStorageTB s) < 2" if "sint s < 0"
  proof -
    have "sint (ipfsStorageTB s) = - ((- sint s) div 2 ^ 40)"
      using that by (simp add: sint_ipfsStorageTB sdiv_neg)
    moreover have "0 \<le> (- sint s) div 2 ^ 40"
      using that by simp
    ultimately show ?thesis by simp
  qed
  moreover have "reading (Requests (IPFSContainerResources s) ResourceMemory) = Some (1, Giga)
       \<and> reading (Limits (IPFSContainerResources s) ResourceMemory) = Some (2, Giga)"
    if "sint (ipfsStorageTB s) < 2"
    using that reading_memory_request [of s] reading_memory_limit [of s] by simp
  moreover have "reading (Requests (IPFSContainerResources (- Tebibyte)) ResourceCPU)
      = Some (- 250, Milli)"
  proof -
    have "sint (- Tebibyte) = - (2 ^ 40)"
      by (simp add: Tebibyte_def)
    then have "sint (ipfsStorageTB (- Tebibyte)) = - 1"
      by (simp add: sint_ipfsStorageTB signed_divide_int_def)
    then show ?thesis
      using reading_cpu_request [of "- Tebibyte"] by simp
  qed
  ultimately show ?thesis by blast
qed

theorem IPFSContainerResources_total_clamp_witness:
  "sint (- 5 :: int64) < 0 \<and> sint (ipfsStorageTB (- 5)) < 2
    \<and> reading (Requests (IPFSContainerResources (- 5)) ResourceMemory) = Some (1, Giga)
    \<and> reading (Limits (IPFSContainerResources (- 5)) ResourceMemory) = Some (2, Giga)"
  using IPFSContainerResources_total_clamp [of "- 5"] by simp

section \<open>Properties of the ObjectSynchronizer\<close>

subsection \<open>One pass of the loop, and the whole loop\<close>

lemma loopBody_calls: "calls (loopBody b e st) = calls st @ [callOf b (world st) e]"
  by (cases e) (simp add: loopBody_def callOf_def Let_def split: prod.splits option.splits)

lemma loopBody_world:
  "world (loopBody b e st) = snd (CreateOrPatch b (world st) (fst e) (snd e))"
  by (cases e) (simp add: loopBody_def Let_def split: prod.splits option.splits)

lemma loopBody_requeue:
  "requeue (loopBody b e st) = (requeue st \<or> callErr (callOf b (world st) e) \<noteq> None)"
  by (cases e) (auto simp add: loopBody_def callOf_def Let_def split: prod.splits option.splits)

lemma loopBody_logged:
  "length (logged (loopBody b e st)) = Suc (length (logged st))"
  by (cases e) (simp add: loopBody_def Let_def split: prod.splits option.splits)

lemma rangeLoop_calls:
  "calls (rangeLoop b es st) = calls st @ applyAll b es (world st)"
  by (induction es arbitrary: st) (simp_all add: loopBody_calls loopBody_world)

lemma rangeLoop_world: "world (rangeLoop b es st) = worldAfter b es (world st)"
  by (induction es arbitrary: st) (simp_all add: loopBody_world)

lemma rangeLoop_requeue:
  "requeue (rangeLoop b es st)
     = (requeue st \<or> (\<exists>c \<in> set (applyAll b es (world st)). callErr c \<noteq> None))"
  by (induction es arbitrary: st) (auto simp add: loopBody_requeue loopBody_world)

lemma rangeLoop_logged:
  "length (logged (rangeLoop b es st)) = length (logged st) + length es"
  by (induction es arbitrary: st) (simp_all add: loopBody_logged)

lemma entryOf_callOf: "entryOf (callOf b w e) = e"
  by (simp add: entryOf_def callOf_def)

lemma map_entryOf_applyAll: "map entryOf (applyAll b es w) = es"
  by (induction es arbitrary: w) (simp_all add: entryOf_callOf)

lemma length_applyAll: "length (applyAll b es w) = length es"
  by (induction es arbitrary: w) simp_all

lemma applyAll_nth:
  "i < length es \<Longrightarrow> applyAll b es w ! i = callOf b (worldAfter b (take i es) w) (es ! i)"
proof (induction es arbitrary: i w)
  case Nil
  then show ?case by simp
next
  case (Cons e es)
  then show ?case by (cases i) simp_all
qed

lemma rangeOrder_empty: "rangeOrder Map.empty es \<longleftrightarrow> es = []"
  by (cases es) (auto simp: rangeOrder_def)

lemma rangeOrder_lookup:
  "rangeOrder m es \<Longrightarrow> (m obj = Some mut) = ((obj, mut) \<in> set es)"
  by (auto simp: rangeOrder_def)

lemma filter_key_distinct:
  "distinct (map fst es) \<Longrightarrow> (k, v) \<in> set es \<Longrightarrow> filter (\<lambda>e. fst e = k) es = [(k, v)]"
proof (induction es)
  case Nil
  then show ?case by simp
next
  case (Cons e es)
  show ?case
  proof (cases "fst e = k")
    case True
    with Cons.prems have "e = (k, v)"
      by (cases e) (auto simp: image_iff)
    moreover have "filter (\<lambda>e. fst e = k) es = []"
      using Cons.prems True by (auto simp: filter_empty_conv image_iff)
    ultimately show ?thesis by simp
  next
    case False
    with Cons show ?thesis by auto
  qed
qed

lemma applyAll_local:
  assumes "distinct (map fst es)" "(obj, mut) \<in> set es"
    and "\<And>w'. fst (CreateOrPatch b w' obj mut) = out"
  shows "filter (\<lambda>c. callObj c = obj) (applyAll b es w)
      = [\<lparr>callObj = obj, callMut = mut, callResult = fst out, callErr = snd out\<rparr>]"
  using assms(1,2)
proof (induction es arbitrary: w)
  case Nil
  then show ?case by simp
next
  case (Cons e es)
  show ?case
  proof (cases "fst e = obj")
    case True
    with Cons.prems have e: "e = (obj, mut)"
      by (cases e) (auto simp: image_iff)
    have "filter (\<lambda>c. callObj c = obj) (applyAll b es w') = []" for w'
    proof -
      have "obj \<notin> fst ` set es" using Cons.prems True by auto
      then have "\<forall>c \<in> set (applyAll b es w'). callObj c \<noteq> obj"
        using map_entryOf_applyAll [of b es w']
        by (metis (no_types, lifting) entryOf_def fst_conv image_eqI list.set_map)
      then show ?thesis by (simp add: filter_empty_conv)
    qed
    then show ?thesis
      using assms(3) by (simp add: e callOf_def)
  next
    case False
    with Cons show ?thesis by (auto simp: callOf_def)
  qed
qed

lemma rangeOrder_same_entries:
  assumes "rangeOrder m es1" "rangeOrder m es2"
  shows "set es1 = set es2 \<and> distinct es1 \<and> distinct es2"
proof -
  have "(p \<in> set es1) = (p \<in> set es2)" for p
    using rangeOrder_lookup [OF assms(1), of "fst p" "snd p"]
      rangeOrder_lookup [OF assms(2), of "fst p" "snd p"] by simp
  moreover have "distinct es1" "distinct es2"
    using assms by (auto simp: rangeOrder_def distinct_map)
  ultimately show ?thesis by blast
qed

text \<open>
  Claim C1. For every collection of tracked objects, in whatever order the range yields
  its entries, and for every apply backend, the function returns true exactly when at
  least one of the \<^verbatim>\<open>CreateOrPatch\<close> calls it made returned an error. For the empty
  collection it returns false, makes no backend call, logs nothing and leaves the world
  as it was.
\<close>

theorem requeue_iff_some_call_failed:
  "requeue (CreateOrPatchTrackedObjects backend entries w)
     = (\<exists>c \<in> set (calls (CreateOrPatchTrackedObjects backend entries w)). callErr c \<noteq> None)
   \<and> (rangeOrder Map.empty entries \<longrightarrow>
        CreateOrPatchTrackedObjects backend entries w
          = \<lparr>world = w, calls = [], logged = [], requeue = False\<rparr>)"
  by (simp add: CreateOrPatchTrackedObjects_def rangeLoop_requeue rangeLoop_calls
      rangeOrder_empty)

theorem requeue_iff_some_call_failed_witness:
  "requeue (CreateOrPatchTrackedObjects listBackend
        [(0, ErrFunc None), (1, ErrFunc (Some (errorString ''boom'')))] [])
   \<and> map callErr (calls (CreateOrPatchTrackedObjects listBackend
        [(0, ErrFunc None), (1, ErrFunc (Some (errorString ''boom'')))] []))
       = [None, Some (errorString ''boom'')]
   \<and> \<not> requeue (CreateOrPatchTrackedObjects listBackend [(0, ErrFunc None), (1, ErrFunc None)] [])
   \<and> rangeOrder (Map.empty :: nat \<rightharpoonup> nat list MutateFn) []
   \<and> CreateOrPatchTrackedObjects listBackend [] [5]
       = \<lparr>world = [5], calls = [], logged = [], requeue = False\<rparr>"
  using requeue_iff_some_call_failed [of listBackend
      "[(0, ErrFunc None), (1, ErrFunc (Some (errorString ''boom'')))]" "[]"]
    requeue_iff_some_call_failed [of listBackend "[(0, ErrFunc None), (1, ErrFunc None)]" "[]"]
    requeue_iff_some_call_failed [of listBackend "[]" "[5]"]
  by (simp add: Let_def CreateOrPatchTrackedObjects_def loopBody_def listBackend_def ErrFunc_def
      rangeOrder_def)

text \<open>
  Claim C5. A failing \<^verbatim>\<open>CreateOrPatch\<close> never aborts the batch. Whatever the calls return,
  the calls made are exactly the entries of the collection in the order the range yields
  them, one log record is written for each, and every tracked object is applied exactly
  once. The function adds no dependence between objects: each call is made in the world
  the backend's earlier calls left, with no regard to what they returned, and its outcome
  is the backend's answer there. So an object whose outcome at the backend does not
  depend on the world gets that outcome whether or not any other object fails.
\<close>

theorem failure_never_aborts_batch:
  assumes "rangeOrder trackedObjects entries"
  shows "map entryOf (calls (CreateOrPatchTrackedObjects backend entries w)) = entries
    \<and> length (logged (CreateOrPatchTrackedObjects backend entries w)) = length entries
    \<and> (\<forall>obj mut. trackedObjects obj = Some mut \<longrightarrow>
          length (filter (\<lambda>c. callObj c = obj)
                    (calls (CreateOrPatchTrackedObjects backend entries w))) = 1)
    \<and> (\<forall>i < length entries.
          calls (CreateOrPatchTrackedObjects backend entries w) ! i
            = callOf backend (worldAfter backend (take i entries) w) (entries ! i))
    \<and> (\<forall>obj mut out. trackedObjects obj = Some mut
            \<and> (\<forall>w'. fst (CreateOrPatch backend w' obj mut) = out) \<longrightarrow>
          filter (\<lambda>c. callObj c = obj) (calls (CreateOrPatchTrackedObjects backend entries w))
            = [\<lparr>callObj = obj, callMut = mut, callResult = fst out, callErr = snd out\<rparr>])"
proof -
  let ?run = "CreateOrPatchTrackedObjects backend entries w"
  have c: "calls ?run = applyAll backend entries w"
    by (simp add: CreateOrPatchTrackedObjects_def rangeLoop_calls)
  have d: "distinct (map fst entries)"
    using assms by (simp add: rangeOrder_def)
  have 1: "map entryOf (calls ?run) = entries"
    by (simp add: c map_entryOf_applyAll)
  have 2: "length (logged ?run) = length entries"
    by (simp add: CreateOrPatchTrackedObjects_def rangeLoop_logged)
  have 3: "length (filter (\<lambda>c. callObj c = obj) (calls ?run)) = 1"
    if "trackedObjects obj = Some mut" for obj mut
  proof -
    have "(obj, mut) \<in> set entries"
      using that rangeOrder_lookup [OF assms] by simp
    then have "filter (\<lambda>e. fst e = obj) entries = [(obj, mut)]"
      using d by (intro filter_key_distinct)
    moreover have "map entryOf (filter (\<lambda>c. callObj c = obj) (calls ?run))
        = filter (\<lambda>e. fst e = obj) (map entryOf (calls ?run))"
      by (simp add: filter_map comp_def entryOf_def)
    ultimately have "map entryOf (filter (\<lambda>c. callObj c = obj) (calls ?run)) = [(obj, mut)]"
      by (simp add: 1)
    then have "length (map entryOf (filter (\<lambda>c. callObj c = obj) (calls ?run))) = 1"
      by simp
    then show ?thesis by simp
  qed
  have 4: "calls ?run ! i = callOf backend (worldAfter backend (take i entries) w) (entries ! i)"
    if "i < length entries" for i
    using that by (simp add: c applyAll_nth)
  have 5: "filter (\<lambda>c. callObj c = obj) (calls ?run)
            = [\<lparr>callObj = obj, callMut = mut, callResult = fst out, callErr = snd out\<rparr>]"
    if "trackedObjects obj = Some mut" "\<forall>w'. fst (CreateOrPatch backend w' obj mut) = out"
    for obj mut out
  proof -
    have "(obj, mut) \<in> set entries"
      using that(1) rangeOrder_lookup [OF assms] by simp
    then show ?thesis
      using d that(2) by (simp add: c applyAll_local)
  qed
  from 1 2 3 4 5 show ?thesis by blast
qed

theorem failure_never_aborts_batch_witness:
  "rangeOrder [0 \<mapsto> ErrFunc (Some (errorString ''boom'')), 1 \<mapsto> ErrFunc None]
     [(0 :: nat, ErrFunc (Some (errorString ''boom'')) :: nat list MutateFn), (1, ErrFunc None)]
   \<and> map callObj (calls (CreateOrPatchTrackedObjects listBackend
        [(0, ErrFunc (Some (errorString ''boom''))), (1, ErrFunc None)] [])) = [0, 1]
   \<and> filter (\<lambda>c. callObj c = 1) (calls (CreateOrPatchTrackedObjects listBackend
        [(0, ErrFunc (Some (errorString ''boom''))), (1, ErrFunc None)] []))
       = [\<lparr>callObj = 1, callMut = ErrFunc None, callResult = ''created'', callErr = None\<rparr>]"
proof -
  let ?es = "[(0 :: nat, ErrFunc (Some (errorString ''boom'')) :: nat list MutateFn), (1, ErrFunc None)]"
  have r: "rangeOrder [0 \<mapsto> ErrFunc (Some (errorString ''boom'')), 1 \<mapsto> ErrFunc None] ?es"
    by (auto simp: rangeOrder_def)
  have t: "[0 \<mapsto> ErrFunc (Some (errorString ''boom'')), 1 \<mapsto> ErrFunc None] (1::nat)
      = Some (ErrFunc None :: nat list MutateFn)"
    by simp
  show ?thesis
    using r t failure_never_aborts_batch [OF r, of listBackend "[]"]
    by (simp add: Let_def CreateOrPatchTrackedObjects_def loopBody_def listBackend_def ErrFunc_def)
qed

text \<open>
  Claim C9, as stated, fails: the function ranges over a Go map, whose iteration order
  is not fixed. Both sequences below are orders in which the range can yield the same
  two-entry collection, and the two runs call the backend on the objects in different
  sequences.
\<close>

theorem range_order_not_fixed:
  "rangeOrder [0 \<mapsto> ErrFunc None, 1 \<mapsto> ErrFunc None]
       [(0 :: nat, ErrFunc None :: nat list MutateFn), (1, ErrFunc None)]
   \<and> rangeOrder [0 \<mapsto> ErrFunc None, 1 \<mapsto> ErrFunc None]
       [(1 :: nat, ErrFunc None :: nat list MutateFn), (0, ErrFunc None)]
   \<and> map callObj (calls (CreateOrPatchTrackedObjects listBackend
        [(0, ErrFunc None), (1, ErrFunc None)] [])) = [0, 1]
   \<and> map callObj (calls (CreateOrPatchTrackedObjects listBackend
        [(1, ErrFunc None), (0, ErrFunc None)] [])) = [1, 0]"
  by (auto simp: rangeOrder_def Let_def CreateOrPatchTrackedObjects_def loopBody_def
      listBackend_def ErrFunc_def)

text \<open>
  Claim C9, amended. The function applies the entries in the order the range over the map
  yields them, which is not fixed from one run to the next. Two runs over the same
  tracked-object collection each call \<^verbatim>\<open>CreateOrPatch\<close> following their own range order,
  and they call it on the same entries, each exactly once: the two call sequences are
  rearrangements of one another.
\<close>

theorem runs_call_same_entries:
  assumes "rangeOrder trackedObjects entries1" and "rangeOrder trackedObjects entries2"
  shows "map entryOf (calls (CreateOrPatchTrackedObjects backend1 entries1 w1)) = entries1
    \<and> map entryOf (calls (CreateOrPatchTrackedObjects backend2 entries2 w2)) = entries2
    \<and> mset (map entryOf (calls (CreateOrPatchTrackedObjects backend1 entries1 w1)))
        = mset (map entryOf (calls (CreateOrPatchTrackedObjects backend2 entries2 w2)))"
proof -
  have 1: "map entryOf (calls (CreateOrPatchTrackedObjects backend1 entries1 w1)) = entries1"
    by (simp add: CreateOrPatchTrackedObjects_def rangeLoop_calls map_entryOf_applyAll)
  have 2: "map entryOf (calls (CreateOrPatchTrackedObjects backend2 entries2 w2)) = entries2"
    by (simp add: CreateOrPatchTrackedObjects_def rangeLoop_calls map_entryOf_applyAll)
  have "mset entries1 = mset entries2"
    using rangeOrder_same_entries [OF assms] set_eq_iff_mset_eq_distinct by blast
  with 1 2 show ?thesis by simp
qed

theorem runs_call_same_entries_witness:
  "rangeOrder [0 \<mapsto> ErrFunc None, 1 \<mapsto> ErrFunc None]
       [(0 :: nat, ErrFunc None :: nat list MutateFn), (1, ErrFunc None)]
   \<and> rangeOrder [0 \<mapsto> ErrFunc None, 1 \<mapsto> ErrFunc None]
       [(1 :: nat, ErrFunc None :: nat list MutateFn), (0, ErrFunc None)]
   \<and> mset (map entryOf (calls (CreateOrPatchTrackedObjects listBackend
        [(0, ErrFunc None), (1, ErrFunc None)] [])))
     = mset (map entryOf (calls (CreateOrPatchTrackedObjects listBackend
        [(1, ErrFunc None), (0, ErrFunc None)] [])))"
proof -
  have a: "rangeOrder [0 \<mapsto> ErrFunc None, 1 \<mapsto> ErrFunc None]
       [(0 :: nat, ErrFunc None :: nat list MutateFn), (1, ErrFunc None)]"
    by (auto simp: rangeOrder_def)
  have b: "rangeOrder [0 \<mapsto> ErrFunc None, 1 \<mapsto> ErrFunc None]
       [(1 :: nat, ErrFunc None :: nat list MutateFn), (0, ErrFunc None)]"
    by (auto simp: rangeOrder_def)
  show ?thesis
    using a b runs_call_same_entries [OF a b, of listBackend "[]" listBackend "[]"]
    by simp
qed

section \<open>Properties of the IdentityProvisioner\<close>

subsection \<open>Hexadecimal encoding\<close>

lemma nibble_cases:
  assumes "d < 16"
  shows "d \<in> {15, 14, 13, 12, 11, 10, 9, 8, 7, 6, 5, 4, 3, 2, 1, 0 :: nat}"
proof -
  have "d \<le> 15" using assms by simp
  then show ?thesis
    unfolding insert_iff empty_iff by arith
qed

lemma fromHexChar_hextable:
  assumes "n < 16"
  shows "fromHexChar (hextable ! n) = Some (of_nat n)"
  using nibble_cases [OF assms]
  by (auto simp: hextable_def fromHexChar_def)

lemma hextable_nth_mem: "n < 16 \<Longrightarrow> hextable ! n \<in> set hextable"
  by (rule nth_mem) (simp add: hextable_def)

lemma high_nibble_less: "unat (drop_bit 4 (v :: byte)) < 16"
proof -
  have "unat v < 256" using unsigned_less [of v] by simp
  then show ?thesis by (simp add: drop_bit_eq_div unat_div)
qed

lemma low_nibble_eq: "(v :: byte) AND 0x0f = take_bit 4 v"
  by (simp add: take_bit_eq_mask mask_eq_exp_minus_1)

lemma low_nibble_less: "unat ((v :: byte) AND 0x0f) < 16"
  by (simp add: low_nibble_eq take_bit_eq_mod unat_mod)

lemma nibbles_join: "push_bit 4 (drop_bit 4 v) OR (v AND 0x0f) = (v :: byte)"
  unfolding low_nibble_eq
  by (rule bit_word_eqI) (auto simp: bit_simps)

lemma length_hex_EncodeToString: "length (hex_EncodeToString src) = 2 * length src"
  by (induction src) simp_all

lemma set_hex_EncodeToString: "set (hex_EncodeToString src) \<subseteq> set hextable"
  by (induction src) (simp_all add: hextable_nth_mem high_nibble_less low_nibble_less)

lemma hex_roundtrip: "hex_DecodeString (hex_EncodeToString src) = Some src"
proof (induction src)
  case Nil
  show ?case by simp
next
  case (Cons v src)
  have "fromHexChar (hextable ! unat (drop_bit 4 v)) = Some (drop_bit 4 v)"
    using fromHexChar_hextable [OF high_nibble_less [of v]] by simp
  moreover have "fromHexChar (hextable ! unat (v AND 0x0f)) = Some (v AND 0x0f)"
    using fromHexChar_hextable [OF low_nibble_less [of v]] by simp
  ultimately show ?case
    using Cons.IH by (simp add: nibbles_join)
qed

lemma newline_notin_hextable: "newline \<notin> set hextable"
  by (simp add: hextable_def newline_def)

lemma splitLines_no_newline: "newline \<notin> set s \<Longrightarrow> splitLines s = [s]"
  by (induction s) auto

lemma splitLines_append:
  "newline \<notin> set s \<Longrightarrow> splitLines (s @ newline # t) = s # splitLines t"
  by (induction s) auto

subsection \<open>Secrets from the random source\<close>

lemma randomKey_ok:
  "src reads = Inr bytes \<Longrightarrow> randomKey src reads len = (Inr (map bytes [0..<len]), reads + 1)"
  by (simp add: randomKey_def rand_Read_def)

lemma randomKey_fail:
  "src reads = Inl err \<Longrightarrow> randomKey src reads len = (Inl err, reads + 1)"
  by (simp add: randomKey_def rand_Read_def)

lemma newline_notin_literals: "newline \<notin> set swarmPrefix \<and> newline \<notin> set multiBase"
  by (simp add: swarmPrefix_def multiBase_def newline_def)

lemma newline_notin_hex: "newline \<notin> set (hex_EncodeToString src)"
  using set_hex_EncodeToString [of src] newline_notin_hextable by blast

lemma splitLines_three:
  assumes "newline \<notin> set a" "newline \<notin> set b" "newline \<notin> set c"
  shows "splitLines (a @ [newline] @ b @ [newline] @ c) = [a, b, c]"
  using assms by (simp add: splitLines_append splitLines_no_newline)

text \<open>
  Claim C6. Whenever the random source succeeds, \<^verbatim>\<open>NewSwarmKey\<close> returns, after one read
  of the source, a text of exactly three lines joined by newline characters: the literal
  \<^verbatim>\<open>/key/swarm/psk/1.0.0\<close>, the literal \<^verbatim>\<open>/base16/\<close>, and 64 lowercase hexadecimal
  characters that encode the 32 bytes the source supplied.
\<close>

theorem NewSwarmKey_format:
  assumes "src reads = Inr bytes"
  shows "\<exists>buf key. length buf = 32 \<and> (\<forall>i < 32. buf ! i = bytes i)
      \<and> length key = 64 \<and> set key \<subseteq> set ''0123456789abcdef''
      \<and> hex_DecodeString key = Some buf
      \<and> NewSwarmKey src reads
          = (Inr (''/key/swarm/psk/1.0.0'' @ [newline] @ ''/base16/'' @ [newline] @ key), reads + 1)
      \<and> splitLines (''/key/swarm/psk/1.0.0'' @ [newline] @ ''/base16/'' @ [newline] @ key)
          = [''/key/swarm/psk/1.0.0'', ''/base16/'', key]"
proof -
  let ?buf = "map bytes [0..<32]"
  let ?key = "hex_EncodeToString ?buf"
  have "length ?buf = 32" by simp
  moreover have "\<forall>i < 32. ?buf ! i = bytes i" by simp
  moreover have "length ?key = 64" by (simp add: length_hex_EncodeToString)
  moreover have "set ?key \<subseteq> set ''0123456789abcdef''"
    using set_hex_EncodeToString [of ?buf] by (simp only: hextable_def)
  moreover have "hex_DecodeString ?key = Some ?buf" by (rule hex_roundtrip)
  moreover have "NewSwarmKey src reads
      = (Inr (''/key/swarm/psk/1.0.0'' @ [newline] @ ''/base16/'' @ [newline] @ ?key), reads + 1)"
    using assms randomKey_ok [of src reads bytes 32]
    by (simp add: NewSwarmKey_def swarmPrefix_def multiBase_def)
  moreover have "splitLines (''/key/swarm/psk/1.0.0'' @ [newline] @ ''/base16/'' @ [newline] @ ?key)
      = [''/key/swarm/psk/1.0.0'', ''/base16/'', ?key]"
    using splitLines_three [OF _ _ newline_notin_hex, of swarmPrefix multiBase ?buf]
      newline_notin_literals
    by (simp add: swarmPrefix_def multiBase_def)
  ultimately show ?thesis by blast
qed

theorem NewSwarmKey_format_witness:
  "\<exists>buf key. length buf = 32 \<and> (\<forall>i < 32. buf ! i = (171 :: byte))
      \<and> length key = 64 \<and> set key \<subseteq> set ''0123456789abcdef''
      \<and> hex_DecodeString key = Some buf
      \<and> NewSwarmKey (\<lambda>n. Inr (\<lambda>i. 171)) 0
          = (Inr (''/key/swarm/psk/1.0.0'' @ [newline] @ ''/base16/'' @ [newline] @ key), 0 + 1)
      \<and> splitLines (''/key/swarm/psk/1.0.0'' @ [newline] @ ''/base16/'' @ [newline] @ key)
          = [''/key/swarm/psk/1.0.0'', ''/base16/'', key]"
  using NewSwarmKey_format [of "\<lambda>n. Inr (\<lambda>i. 171)" 0 "\<lambda>i. 171"] by simp

text \<open>
  Claim C7. When the random source succeeds, \<^verbatim>\<open>NewClusterSecret\<close> returns 64 lowercase
  hexadecimal characters that encode the 32 bytes the source supplied. When the source
  fails, it returns that very error and no secret. In both cases it reads the source
  exactly once: there is no retry.
\<close>

theorem NewClusterSecret_result:
  "(\<forall>bytes. src reads = Inr bytes \<longrightarrow>
      (\<exists>buf secret. length buf = 32 \<and> (\<forall>i < 32. buf ! i = bytes i)
         \<and> NewClusterSecret src reads = (Inr secret, reads + 1)
         \<and> length secret = 64 \<and> set secret \<subseteq> set ''0123456789abcdef''
         \<and> hex_DecodeString secret = Some buf))
   \<and> (\<forall>err. src reads = Inl err \<longrightarrow> NewClusterSecret src reads = (Inl err, reads + 1))"
proof -
  have ok: "\<exists>buf secret. length buf = 32 \<and> (\<forall>i < 32. buf ! i = bytes i)
         \<and> NewClusterSecret src reads = (Inr secret, reads + 1)
         \<and> length secret = 64 \<and> set secret \<subseteq> set ''0123456789abcdef''
         \<and> hex_DecodeString secret = Some buf"
    if s: "src reads = Inr bytes" for bytes
  proof -
    let ?buf = "map bytes [0..<32]"
    let ?secret = "hex_EncodeToString ?buf"
    have "length ?buf = 32" by simp
    moreover have "\<forall>i < 32. ?buf ! i = bytes i" by simp
    moreover have "NewClusterSecret src reads = (Inr ?secret, reads + 1)"
      using s randomKey_ok [of src reads bytes 32] by (simp add: NewClusterSecret_def)
    moreover have "length ?secret = 64" by (simp add: length_hex_EncodeToString)
    moreover have "set ?secret \<subseteq> set ''0123456789abcdef''"
      using set_hex_EncodeToString [of ?buf] by (simp only: hextable_def)
    moreover have "hex_DecodeString ?secret = Some ?buf" by (rule hex_roundtrip)
    ultimately show ?thesis by blast
  qed
  have bad: "NewClusterSecret src reads = (Inl err, reads + 1)" if "src reads = Inl err" for err
    using that randomKey_fail [of src reads err 32] by (simp add: NewClusterSecret_def)
  from ok bad show ?thesis by blast
qed

theorem NewClusterSecret_result_witness:
  "NewClusterSecret (\<lambda>n. Inl (errorString ''no entropy'')) 0
      = (Inl (errorString ''no entropy''), 0 + 1)
   \<and> (\<exists>buf secret. length buf = 32 \<and> (\<forall>i < 32. buf ! i = (171 :: byte))
         \<and> NewClusterSecret (\<lambda>n. Inr (\<lambda>i. 171)) 0 = (Inr secret, 0 + 1)
         \<and> length secret = 64 \<and> set secret \<subseteq> set ''0123456789abcdef''
         \<and> hex_DecodeString secret = Some buf)"
  using NewClusterSecret_result [of "\<lambda>n. Inl (errorString ''no entropy'')" 0]
    NewClusterSecret_result [of "\<lambda>n. Inr (\<lambda>i. 171)" 0]
  by simp

subsection \<open>Errors of \<^verbatim>\<open>GenerateIdentity\<close>\<close>

text \<open>
  Claim C8, as stated, fails on the second message: when serializing the private key
  fails, the context the returned error carries is \<^verbatim>\<open>cannot get bytes from private key\<close>,
  and the words \<^verbatim>\<open>cannot serialize private key\<close> occur nowhere in its message.
\<close>

theorem serialization_failure_message:
  "GenerateIdentity \<lparr>GenerateKeyPair = (\<lambda>t b. Inr (1 :: nat, 2 :: nat)),
        IDFromPublicKey = (\<lambda>pub. Inr ''peer''),
        MarshalPrivateKey = (\<lambda>priv. Inl (errorString ''bad key''))\<rparr>
      = Inl (wrapError ''cannot get bytes from private key: bad key'' (errorString ''bad key''))
   \<and> \<not> contains ''cannot get bytes from private key: bad key'' ''cannot serialize private key''"
  by (simp add: GenerateIdentity_def NewKey_def Errorf_w_def)

text \<open>
  Claim C8, amended. Whenever a step of \<^verbatim>\<open>GenerateIdentity\<close> fails, the returned error wraps
  the underlying error, which \<^verbatim>\<open>Unwrap\<close> gives back unchanged, and its message is a context
  naming the step followed by the underlying message: \<^verbatim>\<open>cannot generate new key: \<close> when
  generating the key pair or deriving the peer identifier fails, and
  \<^verbatim>\<open>cannot get bytes from private key: \<close> when serializing the private key fails. When no
  step fails, the peer identifier and the base64 text of the serialized key are returned.
\<close>

theorem GenerateIdentity_wraps_errors:
  "(\<forall>err. GenerateKeyPair lib Ed25519 4096 = Inl err \<longrightarrow>
      (\<exists>e. GenerateIdentity lib = Inl e \<and> Unwrap e = Some err
          \<and> Error e = ''cannot generate new key: '' @ Error err))
   \<and> (\<forall>priv pub err. GenerateKeyPair lib Ed25519 4096 = Inr (priv, pub)
          \<and> IDFromPublicKey lib pub = Inl err \<longrightarrow>
      (\<exists>e. GenerateIdentity lib = Inl e \<and> Unwrap e = Some err
          \<and> Error e = ''cannot generate new key: '' @ Error err))
   \<and> (\<forall>priv pub peerid err. GenerateKeyPair lib Ed25519 4096 = Inr (priv, pub)
          \<and> IDFromPublicKey lib pub = Inr peerid \<and> MarshalPrivateKey lib priv = Inl err \<longrightarrow>
      (\<exists>e. GenerateIdentity lib = Inl e \<and> Unwrap e = Some err
          \<and> Error e = ''cannot get bytes from private key: '' @ Error err))
   \<and> (\<forall>priv pub peerid privBytes. GenerateKeyPair lib Ed25519 4096 = Inr (priv, pub)
          \<and> IDFromPublicKey lib pub = Inr peerid \<and> MarshalPrivateKey lib priv = Inr privBytes \<longrightarrow>
      GenerateIdentity lib = Inr (peerid, base64_EncodeToString privBytes))"
  by (simp add: GenerateIdentity_def NewKey_def Errorf_w_def edDSAKeyLen_def)

theorem GenerateIdentity_wraps_errors_witness:
  "(\<exists>e. GenerateIdentity \<lparr>GenerateKeyPair = (\<lambda>t b. Inl (errorString ''no entropy'')),
          IDFromPublicKey = (\<lambda>pub :: nat. Inr ''peer''),
          MarshalPrivateKey = (\<lambda>priv :: nat. Inr [])\<rparr> = Inl e
        \<and> Unwrap e = Some (errorString ''no entropy'')
        \<and> Error e = ''cannot generate new key: no entropy'')
   \<and> (\<exists>e. GenerateIdentity \<lparr>GenerateKeyPair = (\<lambda>t b. Inr (1 :: nat, 2 :: nat)),
          IDFromPublicKey = (\<lambda>pub. Inl (errorString ''empty key'')),
          MarshalPrivateKey = (\<lambda>priv. Inr [])\<rparr> = Inl e
        \<and> Unwrap e = Some (errorString ''empty key'')
        \<and> Error e = ''cannot generate new key: empty key'')
   \<and> (\<exists>e. GenerateIdentity \<lparr>GenerateKeyPair = (\<lambda>t b. Inr (1 :: nat, 2 :: nat)),
          IDFromPublicKey = (\<lambda>pub. Inr ''peer''),
          MarshalPrivateKey = (\<lambda>priv. Inl (errorString ''bad key''))\<rparr> = Inl e
        \<and> Unwrap e = Some (errorString ''bad key'')
        \<and> Error e = ''cannot get bytes from private key: bad key'')
   \<and> GenerateIdentity \<lparr>GenerateKeyPair = (\<lambda>t b. Inr (1 :: nat, 2 :: nat)),
          IDFromPublicKey = (\<lambda>pub. Inr ''peer''),
          MarshalPrivateKey = (\<lambda>priv. Inr [102, 111, 111, 98])\<rparr>
       = Inr (''peer'', ''Zm9vYg=='')"
  using GenerateIdentity_wraps_errors
      [of "\<lparr>GenerateKeyPair = (\<lambda>t b. Inl (errorString ''no entropy'')),
          IDFromPublicKey = (\<lambda>pub :: nat. Inr ''peer''),
          MarshalPrivateKey = (\<lambda>priv :: nat. Inr [])\<rparr>"]
    GenerateIdentity_wraps_errors
      [of "\<lparr>GenerateKeyPair = (\<lambda>t b. Inr (1 :: nat, 2 :: nat)),
          IDFromPublicKey = (\<lambda>pub. Inl (errorString ''empty key'')),
          MarshalPrivateKey = (\<lambda>priv. Inr [])\<rparr>"]
    GenerateIdentity_wraps_errors
      [of "\<lparr>GenerateKeyPair = (\<lambda>t b. Inr (1 :: nat, 2 :: nat)),
          IDFromPublicKey = (\<lambda>pub. Inr ''peer''),
          MarshalPrivateKey = (\<lambda>priv. Inl (errorString ''bad key''))\<rparr>"]
    GenerateIdentity_wraps_errors
      [of "\<lparr>GenerateKeyPair = (\<lambda>t b. Inr (1 :: nat, 2 :: nat)),
          IDFromPublicKey = (\<lambda>pub. Inr ''peer''),
          MarshalPrivateKey = (\<lambda>priv. Inr [102, 111, 111, 98])\<rparr>"]
  by (simp add: sextet_def encodeStd_def)

end
